theory Spec2Isabelle
  imports Main
begin

section \<open>The OTP bot of VultBaby\_bot.py\<close>

text \<open>
  A shallow embedding of class \<open>OTPBot\<close>. The bot keeps two dictionaries keyed by the
  Telegram user id (\<open>users\<close> and \<open>otp_codes\<close>) and writes \<open>users\<close> to the file
  \<open>bot_data.json\<close>. Every handler is a function from the bot's state to the new state
  and either the reply it sends or the exception it raises. A Python exception does not
  undo the assignments made before it, so the state returned with an error is the state
  at the raise.

  Conventions of the model:
  \<^item> a \<open>datetime\<close> is an integer number of microseconds (the resolution of
    \<open>datetime\<close>), and \<open>timedelta(seconds=n)\<close> is \<open>n * 1000000\<close>;
  \<^item> every call of \<open>datetime.now()\<close> is a reading of the clock of its own: the handler
    receives \<open>clock\<close>, and \<open>clock i\<close> is the reading used by the \<open>i\<close>-th call that
    reaches the state or a branch (the calls that only print a time are not modelled);
  \<^item> a Python \<open>str\<close> is a \<open>string\<close> whose characters are the code points below 256;
  \<^item> the replies are tagged values carrying the data the message text is built from.
\<close>

subsection \<open>Data\<close>

type_synonym user_id = int
type_synonym datetime = int

record service_info =
  name :: string
  expiry :: int

record user_data =
  first_name :: string
  last_name :: "string option"
  username :: "string option"
  registered_at :: datetime
  otp_count :: int
  verified_count :: int

record otp_data =
  code :: string
  service :: string
  service_name :: string
  created_at :: datetime
  expires_at :: datetime
  used :: bool

text \<open>
  The state of an \<open>OTPBot\<close> object, with the contents of \<open>bot_data.json\<close>
  (\<open>None\<close> when the file does not exist). Of the file only the \<open>users\<close> entry is
  modelled; its \<open>timestamp\<close> entry is never read.
\<close>

record bot =
  users :: "user_id \<rightharpoonup> user_data"
  otp_codes :: "user_id \<rightharpoonup> otp_data"
  bot_data :: "(user_id \<rightharpoonup> user_data) option"

text \<open>\<open>update.effective_user\<close>.\<close>

record tg_user =
  tg_id :: user_id
  tg_first_name :: string
  tg_last_name :: "string option"
  tg_username :: "string option"

text \<open>
  What a handler takes from outside the object: the clock readings, the draws of the
  random generator, and whether \<open>bot_data.json\<close> can be written.
\<close>

record env =
  clock :: "nat \<Rightarrow> datetime"
  rnd :: "nat \<Rightarrow> nat"
  io_ok :: bool

datatype error = KeyErrorStr string | KeyErrorInt int

text \<open>The block about the current OTP in the \<open>/verify\<close> and the statistics messages.\<close>

datatype otp_status =
  Active string string int
| Expired
| NotGenerated

datatype reply =
  Welcome string
| SelectService "string list"
| OtpGenerated string string int int
| VerifyPrompt otp_status
| NoOtpToVerify
| VerifiedCurrent string string
| VerificationFailedExpired string string
| Statistics user_data otp_status nat
| ServiceList "(string \<times> int \<times> string) list"
| Help
| OtpVerified string string
| InvalidOrExpiredOtp
| NoActiveOtp
| NotUnderstood
| NoReply

datatype event = Command string | CallbackQuery string | TextMessage string

subsection \<open>Configuration and helpers\<close>

text \<open>\<open>self.services\<close>, in the order of the dictionary literal.\<close>

definition services :: "(string \<times> service_info) list" where
  "services =
    [(''email_verification'', \<lparr>name = ''Email Verification'', expiry = 300\<rparr>),
     (''login_2fa'', \<lparr>name = ''2FA Login'', expiry = 180\<rparr>),
     (''password_reset'', \<lparr>name = ''Password Reset'', expiry = 600\<rparr>),
     (''transaction_verify'', \<lparr>name = ''Transaction Verification'', expiry = 120\<rparr>),
     (''account_security'', \<lparr>name = ''Account Security'', expiry = 300\<rparr>)]"

definition timedelta :: "int \<Rightarrow> int" where
  "timedelta seconds = seconds * 1000000"

text \<open>\<open>string.digits\<close>.\<close>

definition digits :: string where
  "digits = ''0123456789''"

text \<open>
  \<open>random.choices(population, k=k)\<close> returns \<open>k\<close> elements, each
  \<open>population[floor(random() * n)]\<close> with \<open>n\<close> the size of the population: an index
  below \<open>n\<close>. The generator is a parameter: \<open>r i\<close> is its \<open>i\<close>-th draw, taken into the
  range of the indices.
\<close>

definition random_choices :: "(nat \<Rightarrow> nat) \<Rightarrow> 'a list \<Rightarrow> nat \<Rightarrow> 'a list" where
  "random_choices r population k =
     map (\<lambda>i. population ! (r i mod length population)) [0..<k]"

definition generate_otp :: "(nat \<Rightarrow> nat) \<Rightarrow> nat \<Rightarrow> string" where
  "generate_otp r len = random_choices r digits len"

text \<open>
  \<open>str.isdigit\<close> and \<open>str.strip\<close> on the code points below 256: the digits are
  \<open>0\<close> to \<open>9\<close> and the superscripts two, three and one (178, 179, 185); the white
  space is 9 to 13, 28 to 32, 133 and 160. \<open>isdigit\<close> is false on the empty string.
\<close>

definition isdigit_char :: "char \<Rightarrow> bool" where
  "isdigit_char c =
     (let n = (of_char c :: nat)
      in (48 \<le> n \<and> n \<le> 57) \<or> n = 178 \<or> n = 179 \<or> n = 185)"

definition isspace_char :: "char \<Rightarrow> bool" where
  "isspace_char c =
     (let n = (of_char c :: nat)
      in (9 \<le> n \<and> n \<le> 13) \<or> (28 \<le> n \<and> n \<le> 32) \<or> n = 133 \<or> n = 160)"

definition isdigit :: "string \<Rightarrow> bool" where
  "isdigit s = (s \<noteq> [] \<and> list_all isdigit_char s)"

definition strip :: "string \<Rightarrow> string" where
  "strip s = rev (dropWhile isspace_char (rev (dropWhile isspace_char s)))"

subsection \<open>Persistence\<close>

text \<open>
  \<open>load_data\<close> replaces \<open>users\<close> by the file's contents when the file exists;
  \<open>save_data\<close> writes \<open>users\<close> and swallows the exception when the file cannot be
  written.
\<close>

definition load_data :: "bot \<Rightarrow> bot" where
  "load_data s = (case bot_data s of None \<Rightarrow> s | Some us \<Rightarrow> s\<lparr>users := us\<rparr>)"

definition save_data :: "env \<Rightarrow> bot \<Rightarrow> bot" where
  "save_data e s = (if io_ok e then s\<lparr>bot_data := Some (users s)\<rparr> else s)"

text \<open>\<open>OTPBot.__init__\<close>, given the file found at start.\<close>

definition init :: "(user_id \<rightharpoonup> user_data) option \<Rightarrow> bot" where
  "init file = load_data \<lparr>users = Map.empty, otp_codes = Map.empty, bot_data = file\<rparr>"

subsection \<open>The validity check\<close>

definition is_otp_valid :: "datetime \<Rightarrow> user_id \<Rightarrow> string \<Rightarrow> bot \<Rightarrow> bool \<times> bot" where
  "is_otp_valid now user_id otp s =
     (case otp_codes s user_id of
        None \<Rightarrow> (False, s)
      | Some otp_d \<Rightarrow>
          if code otp_d \<noteq> otp then (False, s)
          else if now > expires_at otp_d
            then (False, s\<lparr>otp_codes := (otp_codes s)(user_id := None)\<rparr>)
          else (True, s))"

subsection \<open>The handlers\<close>

definition start :: "env \<Rightarrow> tg_user \<Rightarrow> bot \<Rightarrow> bot \<times> (error + reply)" where
  "start e u s =
     (let user_id = tg_id u;
          s1 = (if user_id \<notin> dom (users s)
                then save_data e (s\<lparr>users := (users s)(user_id \<mapsto>
                       \<lparr>first_name = tg_first_name u, last_name = tg_last_name u,
                        username = tg_username u, registered_at = clock e 0,
                        otp_count = 0, verified_count = 0\<rparr>)\<rparr>)
                else s)
      in (s1, Inr (Welcome (tg_first_name u))))"

definition show_services_for_generation :: "env \<Rightarrow> tg_user \<Rightarrow> bot \<Rightarrow> bot \<times> (error + reply)" where
  "show_services_for_generation e u s =
     (s, Inr (SelectService (map (\<lambda>(service_id, service_info). ''gen_'' @ service_id) services)))"

definition generate_otp_command :: "env \<Rightarrow> tg_user \<Rightarrow> bot \<Rightarrow> bot \<times> (error + reply)" where
  "generate_otp_command e u s = show_services_for_generation e u s"

definition generate_otp_for_service ::
    "env \<Rightarrow> tg_user \<Rightarrow> string \<Rightarrow> bot \<Rightarrow> bot \<times> (error + reply)" where
  "generate_otp_for_service e u service_id s =
     (let user_id = tg_id u in
      case map_of services service_id of
        None \<Rightarrow> (s, Inl (KeyErrorStr service_id))
      | Some service_info \<Rightarrow>
          let otp_code = generate_otp (rnd e) 6;
              expiry_seconds = expiry service_info;
              expires = clock e 0 + timedelta expiry_seconds;
              s1 = s\<lparr>otp_codes := (otp_codes s)(user_id \<mapsto>
                      \<lparr>code = otp_code, service = service_id,
                       service_name = name service_info, created_at = clock e 1,
                       expires_at = expires, used = False\<rparr>)\<rparr>
          in (case users s1 user_id of
                None \<Rightarrow> (s1, Inl (KeyErrorInt user_id))
              | Some user_d \<Rightarrow>
                  let s2 = save_data e (s1\<lparr>users := (users s1)(user_id \<mapsto>
                             (user_d\<lparr>otp_count := otp_count user_d + 1\<rparr>))\<rparr>)
                  in (s2, Inr (OtpGenerated (name service_info) otp_code
                                 (expiry_seconds div 60) (expiry_seconds mod 60)))))"

text \<open>
  The time left is the \<open>timedelta\<close> \<open>expires_at - now\<close>, which is positive exactly
  when its \<open>total_seconds()\<close> is. The reply carries the code, the service name and that
  \<open>timedelta\<close> in microseconds; the minutes and seconds that the message prints are
  taken from the floating-point \<open>total_seconds()\<close> and are not modelled.
\<close>

definition current_otp_status :: "datetime \<Rightarrow> otp_data \<Rightarrow> otp_status" where
  "current_otp_status now otp_d =
     (let time_left = expires_at otp_d - now
      in if time_left > 0
         then Active (code otp_d) (service_name otp_d) time_left
         else Expired)"

definition verify_otp_command :: "env \<Rightarrow> tg_user \<Rightarrow> bot \<Rightarrow> bot \<times> (error + reply)" where
  "verify_otp_command e u s =
     (case otp_codes s (tg_id u) of
        Some otp_d \<Rightarrow> (s, Inr (VerifyPrompt (current_otp_status (clock e 0) otp_d)))
      | None \<Rightarrow> (s, Inr (VerifyPrompt NotGenerated)))"

text \<open>
  The branch taken when the code is valid, the same statements in \<open>verify_current_otp\<close>
  and in \<open>handle_text_message\<close>: set \<open>used\<close>, count the verification, save, delete the
  record. Each subscript of a dictionary raises \<open>KeyError\<close> on a missing key.
\<close>

definition mark_used_and_remove ::
    "env \<Rightarrow> user_id \<Rightarrow> (otp_data \<Rightarrow> reply) \<Rightarrow> bot \<Rightarrow> bot \<times> (error + reply)" where
  "mark_used_and_remove e user_id msg s =
     (case otp_codes s user_id of
        None \<Rightarrow> (s, Inl (KeyErrorInt user_id))
      | Some otp_d \<Rightarrow>
          let s1 = s\<lparr>otp_codes := (otp_codes s)(user_id \<mapsto> (otp_d\<lparr>used := True\<rparr>))\<rparr>
          in (case users s1 user_id of
                None \<Rightarrow> (s1, Inl (KeyErrorInt user_id))
              | Some user_d \<Rightarrow>
                  let s2 = save_data e (s1\<lparr>users := (users s1)(user_id \<mapsto>
                             (user_d\<lparr>verified_count := verified_count user_d + 1\<rparr>))\<rparr>);
                      s3 = s2\<lparr>otp_codes := (otp_codes s2)(user_id := None)\<rparr>
                  in (s3, Inr (msg otp_d))))"

definition verify_current_otp :: "env \<Rightarrow> tg_user \<Rightarrow> bot \<Rightarrow> bot \<times> (error + reply)" where
  "verify_current_otp e u s =
     (let user_id = tg_id u in
      case otp_codes s user_id of
        None \<Rightarrow> (s, Inr NoOtpToVerify)
      | Some otp_d \<Rightarrow>
          (case is_otp_valid (clock e 0) user_id (code otp_d) s of
             (True, s1) \<Rightarrow>
               mark_used_and_remove e user_id
                 (\<lambda>d. VerifiedCurrent (service_name d) (code d)) s1
           | (False, s1) \<Rightarrow>
               (s1, Inr (VerificationFailedExpired (service_name otp_d) (code otp_d)))))"

definition show_stats :: "env \<Rightarrow> tg_user \<Rightarrow> bot \<Rightarrow> bot \<times> (error + reply)" where
  "show_stats e u s =
     (let user_id = tg_id u in
      case users s user_id of
        None \<Rightarrow> (s, Inl (KeyErrorInt user_id))
      | Some user_d \<Rightarrow>
          let current_otp_info =
                (case otp_codes s user_id of
                   Some otp_d \<Rightarrow> current_otp_status (clock e 0) otp_d
                 | None \<Rightarrow> NotGenerated)
          in (s, Inr (Statistics user_d current_otp_info (length services))))"

definition show_services :: "env \<Rightarrow> tg_user \<Rightarrow> bot \<Rightarrow> bot \<times> (error + reply)" where
  "show_services e u s =
     (s, Inr (ServiceList (map (\<lambda>(service_id, service_info).
                (name service_info, expiry service_info div 60, service_id)) services)))"

definition help_command :: "env \<Rightarrow> tg_user \<Rightarrow> bot \<Rightarrow> bot \<times> (error + reply)" where
  "help_command e u s = (s, Inr Help)"

definition handle_text_message ::
    "env \<Rightarrow> tg_user \<Rightarrow> string \<Rightarrow> bot \<Rightarrow> bot \<times> (error + reply)" where
  "handle_text_message e u text s =
     (let user_id = tg_id u;
          message_text = strip text
      in if isdigit message_text \<and> length message_text = 6 then
           (if user_id \<in> dom (otp_codes s) then
              (case is_otp_valid (clock e 0) user_id message_text s of
                 (True, s1) \<Rightarrow>
                   mark_used_and_remove e user_id
                     (\<lambda>d. OtpVerified (service_name d) message_text) s1
               | (False, s1) \<Rightarrow> (s1, Inr InvalidOrExpiredOtp))
            else (s, Inr NoActiveOtp))
         else (s, Inr NotUnderstood))"

definition startswith :: "string \<Rightarrow> string \<Rightarrow> bool" where
  "startswith s p = (take (length p) s = p)"

definition button_callback :: "env \<Rightarrow> tg_user \<Rightarrow> string \<Rightarrow> bot \<Rightarrow> bot \<times> (error + reply)" where
  "button_callback e u data s =
     (if data = ''main'' then start e u s
      else if data = ''generate'' then show_services_for_generation e u s
      else if data = ''verify'' then verify_otp_command e u s
      else if data = ''verify_current'' then verify_current_otp e u s
      else if data = ''stats'' then show_stats e u s
      else if data = ''services'' then show_services e u s
      else if startswith data ''gen_'' then generate_otp_for_service e u (drop 4 data) s
      else (s, Inr NoReply))"

definition stats_command :: "env \<Rightarrow> tg_user \<Rightarrow> bot \<Rightarrow> bot \<times> (error + reply)" where
  "stats_command e u s = show_stats e u s"

definition services_command :: "env \<Rightarrow> tg_user \<Rightarrow> bot \<Rightarrow> bot \<times> (error + reply)" where
  "services_command e u s = show_services e u s"

text \<open>
  The handlers registered by \<open>run\<close>: six commands, every button press, and every text
  message that is not a command. A command without a handler gets no reply.
\<close>

fun handle :: "env \<Rightarrow> tg_user \<Rightarrow> event \<Rightarrow> bot \<Rightarrow> bot \<times> (error + reply)" where
  "handle e u (Command c) s =
     (if c = ''start'' then start e u s
      else if c = ''generate'' then generate_otp_command e u s
      else if c = ''verify'' then verify_otp_command e u s
      else if c = ''stats'' then stats_command e u s
      else if c = ''services'' then services_command e u s
      else if c = ''help'' then help_command e u s
      else (s, Inr NoReply))"
| "handle e u (CallbackQuery data) s = button_callback e u data s"
| "handle e u (TextMessage text) s = handle_text_message e u text s"

text \<open>
  The events for which the dispatch above has a branch: the six commands, the six fixed
  button payloads and those that start with \<open>gen_\<close>, and every text message.
\<close>

definition has_handler :: "event \<Rightarrow> bool" where
  "has_handler ev =
     (case ev of
        Command c \<Rightarrow>
          c \<in> set [''start'', ''generate'', ''verify'', ''stats'', ''services'', ''help'']
      | CallbackQuery data \<Rightarrow>
          data \<in> set [''main'', ''generate'', ''verify'', ''verify_current'', ''stats'',
                      ''services'']
          \<or> startswith data ''gen_''
      | TextMessage t \<Rightarrow> True)"

text \<open>The states the bot can be in: after \<open>__init__\<close>, and after each handled update.\<close>

inductive reachable :: "bot \<Rightarrow> bool" where
  reachable_init: "reachable (init file)"
| reachable_step: "reachable s \<Longrightarrow> reachable (fst (handle e u ev s))"

subsection \<open>Outcomes and example runs\<close>

text \<open>
  The reply that reports a generated code, and the two replies that report a successful
  verification (from the button and from a text message).
\<close>

definition is_generated :: "error + reply \<Rightarrow> bool" where
  "is_generated r = (case r of Inr (OtpGenerated _ _ _ _) \<Rightarrow> True | _ \<Rightarrow> False)"

definition is_success :: "error + reply \<Rightarrow> bool" where
  "is_success r =
     (case r of Inr (VerifiedCurrent _ _) \<Rightarrow> True | Inr (OtpVerified _ _) \<Rightarrow> True | _ \<Rightarrow> False)"

text \<open>
  An environment for examples: the clock reads 0, 1, 2, ... microseconds, the draws are
  1, 2, 3, ... (so the generated code is 123456), and the file can be written.
  \<open>env_at t\<close> is the same with every clock reading equal to \<open>t\<close>.
\<close>

definition env0 :: env where
  "env0 = \<lparr>clock = int, rnd = Suc, io_ok = True\<rparr>"

definition env_at :: "datetime \<Rightarrow> env" where
  "env_at t = \<lparr>clock = (\<lambda>i. t), rnd = Suc, io_ok = True\<rparr>"

definition user7 :: tg_user where
  "user7 = \<lparr>tg_id = 7, tg_first_name = ''Ada'', tg_last_name = None, tg_username = None\<rparr>"

text \<open>
  Two runs from a bot started without a file. In the first, user 7 sends \<open>/start\<close> and
  presses the button of the service \<open>login_2fa\<close>. In the second, the same user presses
  that button (offered by \<open>/generate\<close>) without ever having sent \<open>/start\<close>.
\<close>

definition registered_state :: bot where
  "registered_state = fst (handle env0 user7 (Command ''start'') (init None))"

definition live_state :: bot where
  "live_state = fst (handle env0 user7 (CallbackQuery ''gen_login_2fa'') registered_state)"

definition unregistered_live_state :: bot where
  "unregistered_live_state = fst (handle env0 user7 (CallbackQuery ''gen_login_2fa'') (init None))"

text \<open>
  What one handled update of user \<open>u\<close> does to the counters of a registered user
  \<open>uid\<close> whose record was \<open>r\<close>: the record is still there, and each counter has grown by
  one exactly when the update is \<open>uid\<close>'s own and was answered by the matching reply.
\<close>

definition counters_step :: "user_id \<Rightarrow> user_data \<Rightarrow> tg_user \<Rightarrow> bot \<times> (error + reply) \<Rightarrow> bool" where
  "counters_step uid r u res =
     (case users (fst res) uid of
        None \<Rightarrow> False
      | Some r' \<Rightarrow>
          otp_count r' = otp_count r + (if tg_id u = uid \<and> is_generated (snd res) then 1 else 0)
        \<and> verified_count r' =
            verified_count r + (if tg_id u = uid \<and> is_success (snd res) then 1 else 0))"

section \<open>Properties\<close>

subsection \<open>Helper facts\<close>

lemma generate_otp_Suc: "generate_otp Suc 6 = ''123456''"
  by (simp add: generate_otp_def random_choices_def digits_def upt_rec)

lemma length_generate_otp: "length (generate_otp r k) = k"
  by (simp add: generate_otp_def random_choices_def)

lemma digits_generate_otp: "list_all (\<lambda>c. c \<in> set digits) (generate_otp r k)"
proof -
  have "0 < length digits" by (simp add: digits_def)
  then have "digits ! (n mod length digits) \<in> set digits" for n
    by (intro nth_mem) simp
  then show ?thesis
    by (simp add: generate_otp_def random_choices_def list_all_iff)
qed

lemma map_of_login_2fa:
  "map_of services ''login_2fa'' = Some \<lparr>name = ''2FA Login'', expiry = 180\<rparr>"
  by (simp add: services_def)

lemma handle_gen:
  "handle e u (CallbackQuery (''gen_'' @ service_id)) s = generate_otp_for_service e u service_id s"
  by (simp add: button_callback_def startswith_def)

lemma otp_codes_generate:
  "map_of services service_id = Some info \<Longrightarrow>
   otp_codes (fst (generate_otp_for_service e u service_id s)) =
     (otp_codes s)(tg_id u \<mapsto>
       \<lparr>code = generate_otp (rnd e) 6, service = service_id, service_name = name info,
        created_at = clock e 1, expires_at = clock e 0 + timedelta (expiry info),
        used = False\<rparr>)"
  by (simp add: generate_otp_for_service_def Let_def save_data_def split: option.splits)

lemma is_otp_valid_mismatch:
  "otp_codes s user_id = Some d \<Longrightarrow> code d \<noteq> otp \<Longrightarrow>
   is_otp_valid now user_id otp s = (False, s)"
  by (simp add: is_otp_valid_def)

lemma is_otp_valid_expired:
  "otp_codes s user_id = Some d \<Longrightarrow> expires_at d < now \<Longrightarrow>
   is_otp_valid now user_id (code d) s =
     (False, s\<lparr>otp_codes := (otp_codes s)(user_id := None)\<rparr>)"
  by (simp add: is_otp_valid_def)

lemma is_otp_valid_live:
  "otp_codes s user_id = Some d \<Longrightarrow> now \<le> expires_at d \<Longrightarrow>
   is_otp_valid now user_id (code d) s = (True, s)"
  by (simp add: is_otp_valid_def)

lemma at_most_one_record: "card {d. (m :: 'k \<rightharpoonup> 'v) k = Some d} \<le> 1"
proof (cases "m k")
  case None
  then show ?thesis by simp
next
  case (Some v)
  then have "{d. m k = Some d} = {v}" by auto
  then show ?thesis by simp
qed

text \<open>The example states, written out.\<close>

lemma registered_state_eq:
  "registered_state =
     \<lparr>users = [7 \<mapsto> \<lparr>first_name = ''Ada'', last_name = None, username = None,
                      registered_at = 0, otp_count = 0, verified_count = 0\<rparr>],
      otp_codes = Map.empty,
      bot_data = Some [7 \<mapsto> \<lparr>first_name = ''Ada'', last_name = None, username = None,
                      registered_at = 0, otp_count = 0, verified_count = 0\<rparr>]\<rparr>"
  by (simp add: registered_state_def start_def init_def load_data_def save_data_def
        env0_def user7_def)

lemma live_state_eq:
  "live_state =
     \<lparr>users = [7 \<mapsto> \<lparr>first_name = ''Ada'', last_name = None, username = None,
                      registered_at = 0, otp_count = 1, verified_count = 0\<rparr>],
      otp_codes = [7 \<mapsto> \<lparr>code = ''123456'', service = ''login_2fa'',
                      service_name = ''2FA Login'', created_at = 1,
                      expires_at = 180000000, used = False\<rparr>],
      bot_data = Some [7 \<mapsto> \<lparr>first_name = ''Ada'', last_name = None, username = None,
                      registered_at = 0, otp_count = 1, verified_count = 0\<rparr>]\<rparr>"
  unfolding live_state_def registered_state_eq
  by (simp add: button_callback_def startswith_def generate_otp_for_service_def services_def
        save_data_def env0_def user7_def generate_otp_Suc timedelta_def Let_def)

lemma unregistered_live_state_eq:
  "unregistered_live_state =
     \<lparr>users = Map.empty,
      otp_codes = [7 \<mapsto> \<lparr>code = ''123456'', service = ''login_2fa'',
                      service_name = ''2FA Login'', created_at = 1,
                      expires_at = 180000000, used = False\<rparr>],
      bot_data = None\<rparr>"
  unfolding unregistered_live_state_def
  by (simp add: button_callback_def startswith_def generate_otp_for_service_def services_def
        save_data_def env0_def user7_def generate_otp_Suc timedelta_def init_def
        load_data_def Let_def)

lemma strip_examples:
  "strip ''654321'' = ''654321''" "strip ''123456'' = ''123456''"
  "strip '' 123456'' = ''123456''" "strip ''000000'' = ''000000''"
  "strip ''12345'' = ''12345''" "strip ''abcdef'' = ''abcdef''"
  by (simp_all add: strip_def isspace_char_def)

lemma isdigit_examples:
  "isdigit ''654321''" "isdigit ''123456''" "isdigit ''000000''" "isdigit ''12345''"
  "\<not> isdigit ''abcdef''"
  by (simp_all add: isdigit_def isdigit_char_def)

lemma startswith_gen: "startswith data ''gen_'' \<Longrightarrow> data = ''gen_'' @ drop 4 data"
proof -
  assume "startswith data ''gen_''"
  then have "take (length ''gen_'') data = ''gen_''" by (simp only: startswith_def)
  moreover have "length ''gen_'' = 4" by simp
  ultimately have "take 4 data = ''gen_''" by (simp only:)
  then have "take 4 data @ drop 4 data = ''gen_'' @ drop 4 data" by simp
  then show ?thesis by (simp only: append_take_drop_id)
qed

lemma registered_known_service_replies:
  assumes reg: "users s (tg_id u) = Some r"
      and known: "\<forall>sid. ev = CallbackQuery (''gen_'' @ sid) \<longrightarrow> map_of services sid \<noteq> None"
  shows "\<exists>rep. snd (handle e u ev s) = Inr rep"
proof (cases ev)
  case (Command c)
  then show ?thesis
    using reg by (simp add: start_def generate_otp_command_def show_services_for_generation_def
       verify_otp_command_def stats_command_def show_stats_def services_command_def
       show_services_def help_command_def Let_def split: option.splits)
next
  case (CallbackQuery data)
  show ?thesis
  proof (cases "startswith data ''gen_''")
    case True
    then have d: "data = ''gen_'' @ drop 4 data" by (rule startswith_gen)
    with known CallbackQuery have "map_of services (drop 4 data) \<noteq> None" by blast
    then obtain info where "map_of services (drop 4 data) = Some info" by blast
    then have "\<exists>rep. snd (generate_otp_for_service e u (drop 4 data) s) = Inr rep"
      using reg by (simp add: generate_otp_for_service_def Let_def)
    moreover have "handle e u ev s = generate_otp_for_service e u (drop 4 data) s"
      unfolding CallbackQuery by (subst d) (rule handle_gen)
    ultimately show ?thesis by simp
  next
    case False
    then show ?thesis
      using reg CallbackQuery
      by (auto simp: button_callback_def start_def show_services_for_generation_def
       verify_otp_command_def show_stats_def verify_current_otp_def is_otp_valid_def
       show_services_def mark_used_and_remove_def Let_def split: option.splits)
  qed
next
  case (TextMessage t)
  then show ?thesis
    using reg
    by (auto simp: handle_text_message_def is_otp_valid_def mark_used_and_remove_def Let_def
          split: option.splits)
qed

text \<open>
  The branch of a valid code, for a registered and for an unregistered user, and what
  the two ways of verifying do for a registered user with an unexpired OTP.
\<close>

lemma mark_used_and_remove_registered:
  assumes "otp_codes s uid = Some d" and "users s uid = Some r"
  shows "mark_used_and_remove e uid msg s =
    (\<lparr>users = (users s)(uid \<mapsto> r\<lparr>verified_count := verified_count r + 1\<rparr>),
      otp_codes = (otp_codes s)(uid := None),
      bot_data = (if io_ok e
                  then Some ((users s)(uid \<mapsto> r\<lparr>verified_count := verified_count r + 1\<rparr>))
                  else bot_data s)\<rparr>,
     Inr (msg d))"
  using assms by (simp add: mark_used_and_remove_def save_data_def Let_def)

lemma mark_used_and_remove_unregistered:
  assumes "otp_codes s uid = Some d" and "users s uid = None"
  shows "mark_used_and_remove e uid msg s =
    (s\<lparr>otp_codes := (otp_codes s)(uid \<mapsto> d\<lparr>used := True\<rparr>)\<rparr>, Inl (KeyErrorInt uid))"
  using assms by (simp add: mark_used_and_remove_def Let_def)

lemma text_verification_registered:
  assumes "otp_codes s (tg_id u) = Some d" and "users s (tg_id u) = Some r"
      and "clock e 0 \<le> expires_at d"
      and "strip text = code d" and "isdigit (code d)" and "length (code d) = 6"
  shows "handle_text_message e u text s =
    (\<lparr>users = (users s)(tg_id u \<mapsto> r\<lparr>verified_count := verified_count r + 1\<rparr>),
      otp_codes = (otp_codes s)(tg_id u := None),
      bot_data = (if io_ok e
                  then Some ((users s)(tg_id u \<mapsto> r\<lparr>verified_count := verified_count r + 1\<rparr>))
                  else bot_data s)\<rparr>,
     Inr (OtpVerified (service_name d) (code d)))"
    and "snd (handle_text_message e' u text (fst (handle_text_message e u text s))) = Inr NoActiveOtp"
proof -
  show 1: "handle_text_message e u text s =
    (\<lparr>users = (users s)(tg_id u \<mapsto> r\<lparr>verified_count := verified_count r + 1\<rparr>),
      otp_codes = (otp_codes s)(tg_id u := None),
      bot_data = (if io_ok e
                  then Some ((users s)(tg_id u \<mapsto> r\<lparr>verified_count := verified_count r + 1\<rparr>))
                  else bot_data s)\<rparr>,
     Inr (OtpVerified (service_name d) (code d)))"
    using assms
    by (simp add: handle_text_message_def is_otp_valid_live domI
          mark_used_and_remove_registered Let_def)
  show "snd (handle_text_message e' u text (fst (handle_text_message e u text s))) = Inr NoActiveOtp"
    unfolding 1 using assms(4-6) by (simp add: handle_text_message_def Let_def)
qed

lemma verify_current_registered:
  assumes "otp_codes s (tg_id u) = Some d" and "users s (tg_id u) = Some r"
      and "clock e 0 \<le> expires_at d"
  shows "verify_current_otp e u s =
    (\<lparr>users = (users s)(tg_id u \<mapsto> r\<lparr>verified_count := verified_count r + 1\<rparr>),
      otp_codes = (otp_codes s)(tg_id u := None),
      bot_data = (if io_ok e
                  then Some ((users s)(tg_id u \<mapsto> r\<lparr>verified_count := verified_count r + 1\<rparr>))
                  else bot_data s)\<rparr>,
     Inr (VerifiedCurrent (service_name d) (code d)))"
  using assms
  by (simp add: verify_current_otp_def is_otp_valid_live mark_used_and_remove_registered
        Let_def)

lemma verify_current_otp_outcomes:
  "snd (verify_current_otp e u s) =
     (case otp_codes s (tg_id u) of
        None \<Rightarrow> Inr NoOtpToVerify
      | Some d \<Rightarrow>
          if expires_at d < clock e 0 then Inr (VerificationFailedExpired (service_name d) (code d))
          else if users s (tg_id u) = None then Inl (KeyErrorInt (tg_id u))
          else Inr (VerifiedCurrent (service_name d) (code d)))"
  by (auto simp: verify_current_otp_def is_otp_valid_def mark_used_and_remove_def Let_def
        split: option.splits)

lemma reachable_unregistered_live_state: "reachable unregistered_live_state"
  unfolding unregistered_live_state_def by (intro reachable_step reachable_init)

lemma reachable_live_state: "reachable live_state"
  unfolding live_state_def registered_state_def by (intro reachable_step reachable_init)


lemma cs_unchanged:
  "users s uid = Some r \<Longrightarrow> \<not> is_generated rep \<Longrightarrow> \<not> is_success rep \<Longrightarrow>
   counters_step uid r u (s, rep)"
  by (simp add: counters_step_def)


lemma cs_mark:
  assumes "users s uid = Some r"
      and "\<And>d. is_success (Inr (msg d))" and "\<And>d. \<not> is_generated (Inr (msg d))"
  shows "counters_step uid r u (mark_used_and_remove e (tg_id u) msg s)"
  using assms
  by (auto simp: counters_step_def mark_used_and_remove_def save_data_def is_generated_def
        is_success_def Let_def split: option.splits)










text \<open>The events without a handler are the ones that get no reply.\<close>

lemma unhandled_no_reply: "\<not> has_handler ev \<Longrightarrow> handle e u ev s = (s, Inr NoReply)"
  by (cases ev) (auto simp: has_handler_def button_callback_def)

lemma no_reply_only_unhandled:
  assumes "snd (handle e u ev s) = Inr NoReply"
  shows "\<not> has_handler ev"
proof (cases ev)
  case (Command c)
  with assms show ?thesis
    by (auto simp: has_handler_def start_def generate_otp_command_def
          show_services_for_generation_def verify_otp_command_def stats_command_def
          show_stats_def services_command_def show_services_def help_command_def Let_def
          split: if_splits option.splits)
next
  case (CallbackQuery data)
  with assms show ?thesis
    by (auto simp: has_handler_def button_callback_def start_def
          show_services_for_generation_def verify_otp_command_def verify_current_otp_def
          is_otp_valid_def mark_used_and_remove_def generate_otp_for_service_def
          show_stats_def show_services_def Let_def
          split: if_splits option.splits)
next
  case (TextMessage t)
  with assms show ?thesis
    by (auto simp: handle_text_message_def is_otp_valid_def
          mark_used_and_remove_def Let_def split: if_splits option.splits)
qed

subsection \<open>C5: the generated code and its expiry\<close>

text \<open>
  C5 as stated fails in its parenthesis: \<open>expires_at\<close> and \<open>created_at\<close> come from two
  calls of \<open>datetime.now()\<close>, so \<open>expires_at\<close> is not \<open>created_at\<close> plus the expiry when
  the clock has moved between them. With the readings 0 and 1 microseconds and the service
  \<open>login_2fa\<close> (180 seconds), the record has \<open>expires_at = 180000000\<close> and
  \<open>created_at = 1\<close>.
\<close>

theorem C5_created_at_counterexample:
  "otp_codes (fst (generate_otp_for_service env0 user7 ''login_2fa'' (init None))) 7 =
     Some \<lparr>code = ''123456'', service = ''login_2fa'', service_name = ''2FA Login'',
           created_at = 1, expires_at = 180000000, used = False\<rparr>
   \<and> (180000000::int) \<noteq> 1 + timedelta 180"
  by (simp add: otp_codes_generate [OF map_of_login_2fa] env0_def user7_def init_def
        load_data_def generate_otp_Suc timedelta_def)

text \<open>
  C5 (amended): for every configured service with expiry \<open>E\<close>, a generation request
  stores for the user an OTP whose code has exactly 6 characters, all of them decimal
  digits, and whose \<open>expires_at\<close> is \<open>T + E\<close>, where \<open>T\<close> is the clock reading taken when
  the expiry is computed. \<open>created_at\<close> is a second reading, and \<open>expires_at\<close> is
  \<open>created_at + E\<close> exactly when the two readings are equal.
\<close>

theorem C5_generated_code_and_expiry:
  assumes "map_of services service_id = Some info"
  shows "\<exists>d. otp_codes (fst (generate_otp_for_service e u service_id s)) (tg_id u) = Some d
           \<and> length (code d) = 6
           \<and> list_all (\<lambda>c. c \<in> set digits) (code d)
           \<and> expires_at d = clock e 0 + timedelta (expiry info)
           \<and> created_at d = clock e 1
           \<and> ((expires_at d = created_at d + timedelta (expiry info)) = (clock e 0 = clock e 1))"
  by (simp add: otp_codes_generate [OF assms] length_generate_otp digits_generate_otp)

theorem C5_generated_code_and_expiry_witness:
  "map_of services ''login_2fa'' = Some \<lparr>name = ''2FA Login'', expiry = 180\<rparr>
   \<and> (\<exists>d. otp_codes (fst (generate_otp_for_service env0 user7 ''login_2fa'' (init None)))
             (tg_id user7) = Some d
           \<and> length (code d) = 6
           \<and> list_all (\<lambda>c. c \<in> set digits) (code d)
           \<and> expires_at d = clock env0 0 + timedelta 180
           \<and> created_at d = clock env0 1
           \<and> ((expires_at d = created_at d + timedelta 180) = (clock env0 0 = clock env0 1)))"
  using C5_generated_code_and_expiry [OF map_of_login_2fa, of env0 user7 "init None"]
  by (simp add: map_of_login_2fa)

subsection \<open>C7: a wrong code changes nothing\<close>

text \<open>
  C7: for every user with a live OTP, a text message that is a 6-digit string different
  from the stored code is answered with the rejection reply of the text handler (its
  message is headed "Invalid or Expired OTP"), and the bot's state is returned as it was:
  the record stays in \<open>otp_codes\<close> with every field unchanged, and no counter changes.
  This holds whether or not the OTP has expired, so in particular for an unexpired one.
\<close>

theorem C7_wrong_code_leaves_state:
  assumes "otp_codes s (tg_id u) = Some d"
      and "isdigit (strip text)" and "length (strip text) = 6"
      and "strip text \<noteq> code d"
  shows "handle_text_message e u text s = (s, Inr InvalidOrExpiredOtp)"
  using assms by (simp add: handle_text_message_def is_otp_valid_def domI)

theorem C7_wrong_code_leaves_state_witness:
  "otp_codes live_state (tg_id user7) =
     Some \<lparr>code = ''123456'', service = ''login_2fa'', service_name = ''2FA Login'',
           created_at = 1, expires_at = 180000000, used = False\<rparr>
   \<and> isdigit (strip ''654321'') \<and> length (strip ''654321'') = 6
   \<and> strip ''654321'' \<noteq> ''123456''
   \<and> handle_text_message (env_at 100) user7 ''654321'' live_state
       = (live_state, Inr InvalidOrExpiredOtp)"
  using C7_wrong_code_leaves_state [of live_state user7
      "\<lparr>code = ''123456'', service = ''login_2fa'', service_name = ''2FA Login'',
        created_at = 1, expires_at = 180000000, used = False\<rparr>" "''654321''" "env_at 100"]
  by (simp add: live_state_eq user7_def strip_examples isdigit_examples)

subsection \<open>C4: one live OTP per user, replaced by a generation\<close>

text \<open>
  C4: in every reachable state each user has at most one record in \<open>otp_codes\<close> (it is
  a dictionary keyed by the user id), and a generation request for a configured service
  leads to a reachable state in which the user's record is the new one, with the fresh
  code and \<open>used = False\<close>, whatever was stored for that user before; the records of
  the other users are untouched.
\<close>

theorem C4_single_live_otp_replaced:
  assumes "reachable s" and "map_of services service_id = Some info"
  shows "card {d. otp_codes s uid = Some d} \<le> 1
       \<and> reachable (fst (handle e u (CallbackQuery (''gen_'' @ service_id)) s))
       \<and> card {d. otp_codes (fst (handle e u (CallbackQuery (''gen_'' @ service_id)) s)) uid
                   = Some d} \<le> 1
       \<and> otp_codes (fst (handle e u (CallbackQuery (''gen_'' @ service_id)) s)) (tg_id u) =
            Some \<lparr>code = generate_otp (rnd e) 6, service = service_id,
                  service_name = name info, created_at = clock e 1,
                  expires_at = clock e 0 + timedelta (expiry info), used = False\<rparr>
       \<and> (uid \<noteq> tg_id u \<longrightarrow>
            otp_codes (fst (handle e u (CallbackQuery (''gen_'' @ service_id)) s)) uid
              = otp_codes s uid)"
proof -
  have r: "reachable (fst (handle e u (CallbackQuery (''gen_'' @ service_id)) s))"
    using assms(1) by (rule reachable_step)
  have eq: "otp_codes (fst (handle e u (CallbackQuery (''gen_'' @ service_id)) s)) =
      (otp_codes s)(tg_id u \<mapsto>
        \<lparr>code = generate_otp (rnd e) 6, service = service_id, service_name = name info,
         created_at = clock e 1, expires_at = clock e 0 + timedelta (expiry info),
         used = False\<rparr>)"
    unfolding handle_gen by (rule otp_codes_generate [OF assms(2)])
  have c1: "card {d. otp_codes s uid = Some d} \<le> 1"
    by (rule at_most_one_record)
  have c2: "card {d. otp_codes (fst (handle e u (CallbackQuery (''gen_'' @ service_id)) s)) uid
              = Some d} \<le> 1"
    by (rule at_most_one_record)
  have st: "otp_codes (fst (handle e u (CallbackQuery (''gen_'' @ service_id)) s)) (tg_id u) =
      Some \<lparr>code = generate_otp (rnd e) 6, service = service_id, service_name = name info,
            created_at = clock e 1, expires_at = clock e 0 + timedelta (expiry info),
            used = False\<rparr>"
    unfolding eq by simp
  have fr: "uid \<noteq> tg_id u \<longrightarrow>
      otp_codes (fst (handle e u (CallbackQuery (''gen_'' @ service_id)) s)) uid = otp_codes s uid"
    unfolding eq by simp
  from c1 r c2 st fr show ?thesis by (intro conjI)
qed

theorem C4_single_live_otp_replaced_witness:
  "reachable live_state
   \<and> map_of services ''login_2fa'' = Some \<lparr>name = ''2FA Login'', expiry = 180\<rparr>
   \<and> (8::int) \<noteq> tg_id user7
   \<and> card {d. otp_codes live_state 8 = Some d} \<le> 1
   \<and> reachable (fst (handle (env_at 50) user7 (CallbackQuery (''gen_'' @ ''login_2fa''))
                       live_state))
   \<and> otp_codes (fst (handle (env_at 50) user7 (CallbackQuery (''gen_'' @ ''login_2fa''))
                       live_state)) (tg_id user7) =
        Some \<lparr>code = generate_otp (rnd (env_at 50)) 6, service = ''login_2fa'',
              service_name = ''2FA Login'', created_at = clock (env_at 50) 1,
              expires_at = clock (env_at 50) 0 + timedelta 180, used = False\<rparr>
   \<and> otp_codes (fst (handle (env_at 50) user7 (CallbackQuery (''gen_'' @ ''login_2fa''))
                       live_state)) 8 = otp_codes live_state 8"
proof -
  have r: "reachable live_state"
    unfolding live_state_def registered_state_def
    by (intro reachable_step reachable_init)
  have n: "(8::int) \<noteq> tg_id user7"
    by (simp add: user7_def)
  from C4_single_live_otp_replaced [OF r map_of_login_2fa, of 8 "env_at 50" user7] r n
  show ?thesis
    by (simp add: map_of_login_2fa del: handle.simps)
qed

subsection \<open>C8: which text messages are verification attempts\<close>




subsection \<open>C1: verifying after the expiry\<close>

text \<open>
  C1 as stated fails: \<open>is_otp_valid\<close> compares the code before it looks at the expiry,
  so an attempt with a wrong code against an expired OTP returns at the comparison and
  deletes nothing. With the code 123456 expired at 180 seconds, the text 000000 sent at
  200 seconds is rejected, the record stays, and the next attempt is rejected in the same
  way instead of being told that there is no active OTP.
\<close>

theorem C1_wrong_code_expired_counterexample:
  "otp_codes live_state 7 =
     Some \<lparr>code = ''123456'', service = ''login_2fa'', service_name = ''2FA Login'',
           created_at = 1, expires_at = 180000000, used = False\<rparr>
   \<and> (180000000::int) < clock (env_at 200000000) 0
   \<and> handle_text_message (env_at 200000000) user7 ''000000'' live_state
       = (live_state, Inr InvalidOrExpiredOtp)
   \<and> snd (handle_text_message (env_at 200000001) user7 ''000000''
            (fst (handle_text_message (env_at 200000000) user7 ''000000'' live_state)))
       = Inr InvalidOrExpiredOtp"
  by (simp add: handle_text_message_def live_state_eq strip_examples isdigit_examples
        is_otp_valid_def env_at_def user7_def)

text \<open>
  C1 (amended): for every user with a stored OTP whose expiry time has passed, a
  verification attempt that presents the stored code is rejected and deletes the record,
  so that the next attempt is told that there is no OTP: the verify-current button
  reports the expiry, and a text message equal (after stripping) to the stored 6-digit
  code gets the rejection reply of the text handler. An attempt with another 6-digit
  text gets the same rejection reply and leaves the state as it was.
\<close>

theorem C1_expired_matching_code_deleted:
  assumes "otp_codes s (tg_id u) = Some d" and "expires_at d < clock e 0"
  shows "verify_current_otp e u s =
           (s\<lparr>otp_codes := (otp_codes s)(tg_id u := None)\<rparr>,
            Inr (VerificationFailedExpired (service_name d) (code d)))
       \<and> snd (verify_current_otp e' u (fst (verify_current_otp e u s))) = Inr NoOtpToVerify
       \<and> (strip text = code d \<and> isdigit (code d) \<and> length (code d) = 6 \<longrightarrow>
            handle_text_message e u text s =
              (s\<lparr>otp_codes := (otp_codes s)(tg_id u := None)\<rparr>, Inr InvalidOrExpiredOtp)
            \<and> snd (handle_text_message e' u text (fst (handle_text_message e u text s)))
                = Inr NoActiveOtp)
       \<and> (strip text \<noteq> code d \<and> isdigit (strip text) \<and> length (strip text) = 6 \<longrightarrow>
            handle_text_message e u text s = (s, Inr InvalidOrExpiredOtp))"
proof -
  have v: "verify_current_otp e u s =
           (s\<lparr>otp_codes := (otp_codes s)(tg_id u := None)\<rparr>,
            Inr (VerificationFailedExpired (service_name d) (code d)))"
    using assms by (simp add: verify_current_otp_def is_otp_valid_def)
  have v2: "snd (verify_current_otp e' u (fst (verify_current_otp e u s))) = Inr NoOtpToVerify"
    unfolding v by (simp add: verify_current_otp_def)
  have t: "handle_text_message e u text s =
              (s\<lparr>otp_codes := (otp_codes s)(tg_id u := None)\<rparr>, Inr InvalidOrExpiredOtp)"
    if "strip text = code d" "isdigit (code d)" "length (code d) = 6"
    using assms that by (simp add: handle_text_message_def is_otp_valid_def domI)
  have t2: "snd (handle_text_message e' u text (fst (handle_text_message e u text s)))
                = Inr NoActiveOtp"
    if "strip text = code d" "isdigit (code d)" "length (code d) = 6"
    unfolding t [OF that] using that by (simp add: handle_text_message_def)
  have m: "handle_text_message e u text s = (s, Inr InvalidOrExpiredOtp)"
    if "strip text \<noteq> code d" "isdigit (strip text)" "length (strip text) = 6"
    using assms that by (simp add: handle_text_message_def is_otp_valid_def domI)
  from v v2 t t2 m show ?thesis by blast
qed

theorem C1_expired_matching_code_deleted_witness:
  "otp_codes live_state (tg_id user7) =
     Some \<lparr>code = ''123456'', service = ''login_2fa'', service_name = ''2FA Login'',
           created_at = 1, expires_at = 180000000, used = False\<rparr>
   \<and> (180000000::int) < clock (env_at 200000000) 0
   \<and> strip ''123456'' = ''123456'' \<and> isdigit ''123456'' \<and> length ''123456'' = 6
   \<and> verify_current_otp (env_at 200000000) user7 live_state =
        (live_state\<lparr>otp_codes := (otp_codes live_state)(tg_id user7 := None)\<rparr>,
         Inr (VerificationFailedExpired ''2FA Login'' ''123456''))
   \<and> snd (verify_current_otp (env_at 200000001) user7
            (fst (verify_current_otp (env_at 200000000) user7 live_state))) = Inr NoOtpToVerify
   \<and> handle_text_message (env_at 200000000) user7 ''123456'' live_state =
        (live_state\<lparr>otp_codes := (otp_codes live_state)(tg_id user7 := None)\<rparr>,
         Inr InvalidOrExpiredOtp)
   \<and> snd (handle_text_message (env_at 200000001) user7 ''123456''
            (fst (handle_text_message (env_at 200000000) user7 ''123456'' live_state)))
        = Inr NoActiveOtp"
proof -
  have l: "otp_codes live_state (tg_id user7) =
     Some \<lparr>code = ''123456'', service = ''login_2fa'', service_name = ''2FA Login'',
           created_at = 1, expires_at = 180000000, used = False\<rparr>"
    by (simp add: live_state_eq user7_def)
  have x: "expires_at \<lparr>code = ''123456'', service = ''login_2fa'', service_name = ''2FA Login'',
           created_at = 1, expires_at = 180000000, used = False\<rparr> < clock (env_at 200000000) 0"
    by (simp add: env_at_def)
  note th = C1_expired_matching_code_deleted [OF l x, of "env_at 200000001" "''123456''", unfolded otp_data.select_convs]
  have p: "strip ''123456'' = ''123456''" "isdigit ''123456''" "length ''123456'' = 6"
    by (simp_all add: strip_examples isdigit_examples)
  have x': "(180000000::int) < clock (env_at 200000000) 0"
    by (simp add: env_at_def)
  from th l x' p show ?thesis by blast
qed

subsection \<open>C2: the exceptions of the dictionaries\<close>

text \<open>
  C2 as stated fails: no handler catches an exception. A statistics request by a user
  who never sent \<open>/start\<close> raises \<open>KeyError\<close> out of the handler, and so does a button
  press whose payload names a service that is not configured.
\<close>

theorem C2_key_error_counterexample:
  "handle env0 user7 (Command ''stats'') (init None) = (init None, Inl (KeyErrorInt 7))
   \<and> handle env0 user7 (CallbackQuery ''gen_sms'') registered_state
       = (registered_state, Inl (KeyErrorStr ''sms''))"
  by (simp add: stats_command_def show_stats_def init_def load_data_def user7_def
        button_callback_def startswith_def generate_otp_for_service_def services_def)

text \<open>
  C2 (amended): the handlers catch nothing. A generation request for a service id that
  is not configured raises \<open>KeyError\<close> with that id and leaves the state unchanged; a
  statistics request (command or button) by an unregistered user raises \<open>KeyError\<close>
  with the user id and leaves the state unchanged. For a registered user, an event that
  has a handler and does not ask for an unconfigured service raises nothing and is
  answered with a message. An event without a handler (a command other than the six
  registered ones, a button payload that matches no branch) changes nothing and is not
  answered.
\<close>

theorem C2_key_errors_propagate:
  "(users s (tg_id u) \<noteq> None
      \<and> (\<forall>sid. ev = CallbackQuery (''gen_'' @ sid) \<longrightarrow> map_of services sid \<noteq> None)
      \<and> has_handler ev
      \<longrightarrow> (\<exists>rep. snd (handle e u ev s) = Inr rep \<and> rep \<noteq> NoReply))
   \<and> (\<not> has_handler ev \<longrightarrow> handle e u ev s = (s, Inr NoReply))
   \<and> (map_of services service_id = None \<longrightarrow>
        handle e u (CallbackQuery (''gen_'' @ service_id)) s = (s, Inl (KeyErrorStr service_id)))
   \<and> (users s (tg_id u) = None \<longrightarrow>
        handle e u (Command ''stats'') s = (s, Inl (KeyErrorInt (tg_id u)))
        \<and> handle e u (CallbackQuery ''stats'') s = (s, Inl (KeyErrorInt (tg_id u))))"
proof (intro conjI impI)
  assume a: "users s (tg_id u) \<noteq> None
      \<and> (\<forall>sid. ev = CallbackQuery (''gen_'' @ sid) \<longrightarrow> map_of services sid \<noteq> None)
      \<and> has_handler ev"
  then obtain rep where rep: "snd (handle e u ev s) = Inr rep"
    using registered_known_service_replies [of s u _ ev e] by blast
  with a no_reply_only_unhandled [of e u ev s] have "rep \<noteq> NoReply" by blast
  with rep show "\<exists>rep. snd (handle e u ev s) = Inr rep \<and> rep \<noteq> NoReply" by blast
next
  assume "\<not> has_handler ev"
  then show "handle e u ev s = (s, Inr NoReply)" by (rule unhandled_no_reply)
next
  assume "map_of services service_id = None"
  then show "handle e u (CallbackQuery (''gen_'' @ service_id)) s = (s, Inl (KeyErrorStr service_id))"
    unfolding handle_gen by (simp add: generate_otp_for_service_def)
next
  assume "users s (tg_id u) = None"
  then show "handle e u (Command ''stats'') s = (s, Inl (KeyErrorInt (tg_id u)))"
    by (simp add: stats_command_def show_stats_def)
next
  assume "users s (tg_id u) = None"
  then show "handle e u (CallbackQuery ''stats'') s = (s, Inl (KeyErrorInt (tg_id u)))"
    by (simp add: button_callback_def show_stats_def)
qed

theorem C2_key_errors_propagate_witness:
  "users live_state (tg_id user7) \<noteq> None
   \<and> has_handler (CallbackQuery (''gen_'' @ ''login_2fa''))
   \<and> (\<exists>rep. snd (handle (env_at 50) user7 (CallbackQuery (''gen_'' @ ''login_2fa'')) live_state)
               = Inr rep \<and> rep \<noteq> NoReply)
   \<and> \<not> has_handler (CallbackQuery ''bogus'')
   \<and> handle (env_at 50) user7 (CallbackQuery ''bogus'') live_state = (live_state, Inr NoReply)
   \<and> map_of services ''sms'' = None
   \<and> handle env0 user7 (CallbackQuery (''gen_'' @ ''sms'')) live_state
       = (live_state, Inl (KeyErrorStr ''sms''))
   \<and> users (init None) (tg_id user7) = None
   \<and> handle env0 user7 (Command ''stats'') (init None)
       = (init None, Inl (KeyErrorInt (tg_id user7)))
   \<and> handle env0 user7 (CallbackQuery ''stats'') (init None)
       = (init None, Inl (KeyErrorInt (tg_id user7)))"
proof -
  have a: "users live_state (tg_id user7) \<noteq> None"
    by (simp add: live_state_eq user7_def)
  have b: "\<forall>sid. CallbackQuery (''gen_'' @ ''login_2fa'') = CallbackQuery (''gen_'' @ sid)
             \<longrightarrow> map_of services sid \<noteq> None"
    by (simp add: map_of_login_2fa)
  have h: "has_handler (CallbackQuery (''gen_'' @ ''login_2fa''))"
    by (simp add: has_handler_def startswith_def)
  have n: "\<not> has_handler (CallbackQuery ''bogus'')"
    by (simp add: has_handler_def startswith_def)
  have c: "map_of services ''sms'' = None"
    by (simp add: services_def)
  have d: "users (init None) (tg_id user7) = None"
    by (simp add: init_def load_data_def)
  from C2_key_errors_propagate [of live_state user7 "CallbackQuery (''gen_'' @ ''login_2fa'')" "env_at 50" "''sms''"]
    a b h
  have 1: "\<exists>rep. snd (handle (env_at 50) user7 (CallbackQuery (''gen_'' @ ''login_2fa'')) live_state)
               = Inr rep \<and> rep \<noteq> NoReply"
    by blast
  from C2_key_errors_propagate [of live_state user7 "CallbackQuery ''bogus''" "env_at 50" "''sms''"] n
  have 0: "handle (env_at 50) user7 (CallbackQuery ''bogus'') live_state = (live_state, Inr NoReply)"
    by blast
  from C2_key_errors_propagate [of live_state user7 "CallbackQuery (''gen_'' @ ''login_2fa'')" env0 "''sms''"] c
  have 2: "handle env0 user7 (CallbackQuery (''gen_'' @ ''sms'')) live_state
       = (live_state, Inl (KeyErrorStr ''sms''))"
    by blast
  from C2_key_errors_propagate [of "init None" user7 "Command ''help''" env0 "''sms''"] d
  have 3: "handle env0 user7 (Command ''stats'') (init None)
       = (init None, Inl (KeyErrorInt (tg_id user7)))
     \<and> handle env0 user7 (CallbackQuery ''stats'') (init None)
       = (init None, Inl (KeyErrorInt (tg_id user7)))"
    by blast
  from a h 1 n 0 c 2 d 3 show ?thesis by blast
qed

subsection \<open>C3: verifying the right code\<close>

text \<open>
  C3 holds for every registered user (\<open>text_verification_registered\<close> and
  \<open>verify_current_registered\<close> above): the reply is the success reply, the counter is
  incremented, the users are saved and the record is deleted, so that the next attempt
  finds no OTP. It fails for a user who has a live OTP without being registered, a state
  the bot reaches when the first thing a user does is to press a service button:
  \<open>generate_otp_for_service\<close> stores the OTP before it raises \<open>KeyError\<close> on
  \<open>users[user_id]\<close>. Verifying the right, unexpired code then raises \<open>KeyError\<close> after
  \<open>used\<close> is set and before the record is deleted; the record stays, and a second
  attempt raises again instead of finding no OTP.
\<close>

theorem C3_unregistered_verification_raises:
  "reachable unregistered_live_state
   \<and> otp_codes unregistered_live_state 7 =
       Some \<lparr>code = ''123456'', service = ''login_2fa'', service_name = ''2FA Login'',
             created_at = 1, expires_at = 180000000, used = False\<rparr>
   \<and> clock (env_at 100) 0 \<le> (180000000::int)
   \<and> snd (handle (env_at 100) user7 (TextMessage ''123456'') unregistered_live_state)
       = Inl (KeyErrorInt 7)
   \<and> otp_codes (fst (handle (env_at 100) user7 (TextMessage ''123456'') unregistered_live_state)) 7
       = Some \<lparr>code = ''123456'', service = ''login_2fa'', service_name = ''2FA Login'',
             created_at = 1, expires_at = 180000000, used = True\<rparr>
   \<and> users (fst (handle (env_at 100) user7 (TextMessage ''123456'') unregistered_live_state)) 7
       = None
   \<and> snd (handle (env_at 101) user7 (TextMessage ''123456'')
            (fst (handle (env_at 100) user7 (TextMessage ''123456'') unregistered_live_state)))
       = Inl (KeyErrorInt 7)"
proof (intro conjI)
  show "reachable unregistered_live_state"
    by (rule reachable_unregistered_live_state)
qed (simp_all add: unregistered_live_state_eq
        handle_text_message_def strip_examples isdigit_examples is_otp_valid_def
        mark_used_and_remove_def env_at_def user7_def Let_def)

subsection \<open>C9: the flag \<open>used\<close> of the stored records\<close>

text \<open>
  C9 fails in a reachable state, by the same defect: for the unregistered user of the
  run above, the verify-current button sets \<open>used\<close> and raises \<open>KeyError\<close> before the
  deletion, so the record stays in \<open>otp_codes\<close> with \<open>used = True\<close>.
\<close>

theorem C9_used_record_stays_live:
  "reachable (fst (handle (env_at 100) user7 (CallbackQuery ''verify_current'')
                     unregistered_live_state))
   \<and> otp_codes (fst (handle (env_at 100) user7 (CallbackQuery ''verify_current'')
                     unregistered_live_state)) 7
       = Some \<lparr>code = ''123456'', service = ''login_2fa'', service_name = ''2FA Login'',
             created_at = 1, expires_at = 180000000, used = True\<rparr>"
proof -
  have "reachable (fst (handle (env_at 100) user7 (CallbackQuery ''verify_current'')
                     unregistered_live_state))"
    by (intro reachable_step reachable_unregistered_live_state)
  moreover have "otp_codes (fst (handle (env_at 100) user7 (CallbackQuery ''verify_current'')
                     unregistered_live_state)) 7
       = Some \<lparr>code = ''123456'', service = ''login_2fa'', service_name = ''2FA Login'',
             created_at = 1, expires_at = 180000000, used = True\<rparr>"
    by (simp add: unregistered_live_state_eq button_callback_def verify_current_otp_def
        is_otp_valid_def mark_used_and_remove_def env_at_def user7_def)
  ultimately show ?thesis by (rule conjI)
qed

subsection \<open>C10: the outcomes of verify-current\<close>

text \<open>
  C10 holds in its first part: the replies of \<open>verify_current_otp\<close> are those of
  \<open>verify_current_otp_outcomes\<close> above, none of them reports a wrong code, and the
  failure reply is sent exactly when the OTP has expired. It fails in its second part: a
  live, unexpired OTP does not always verify. For the unregistered user of the run above
  the handler raises \<open>KeyError\<close> (the same defect as in C3 and C9).
\<close>

theorem C10_verify_current_raises:
  "reachable unregistered_live_state
   \<and> otp_codes unregistered_live_state (tg_id user7) =
       Some \<lparr>code = ''123456'', service = ''login_2fa'', service_name = ''2FA Login'',
             created_at = 1, expires_at = 180000000, used = False\<rparr>
   \<and> clock (env_at 100) 0 \<le> (180000000::int)
   \<and> verify_current_otp (env_at 100) user7 unregistered_live_state =
       (unregistered_live_state\<lparr>otp_codes := (otp_codes unregistered_live_state)(7 \<mapsto>
           \<lparr>code = ''123456'', service = ''login_2fa'', service_name = ''2FA Login'',
            created_at = 1, expires_at = 180000000, used = True\<rparr>)\<rparr>,
        Inl (KeyErrorInt 7))"
proof (intro conjI)
  show "reachable unregistered_live_state"
    by (rule reachable_unregistered_live_state)
qed (simp_all add: unregistered_live_state_eq
        verify_current_otp_def is_otp_valid_def
        mark_used_and_remove_def env_at_def user7_def Let_def)

subsection \<open>C6: the two counters\<close>



end
